theory Spec2Isabelle
  imports Main
begin

section \<open>Go values at the boundary of the helpers\<close>

text \<open>
  The helpers of \<^verbatim>\<open>modules/aws\<close> are Go functions that talk to the AWS SDK. Their model
  makes three things of the Go run time explicit.

  \<^item> A run-time panic (an index out of range, a nil pointer dereference) is the outcome
    \<open>Panic\<close>; a normal return is \<open>Returned v\<close>.
  \<^item> A Go pointer \<^verbatim>\<open>*T\<close> is a \<open>T option\<close>, \<open>None\<close> being \<^verbatim>\<open>nil\<close>. The SDK's shapes keep
    every field behind a pointer, and a field the response did not carry stays \<^verbatim>\<open>nil\<close>.
  \<^item> A Go \<^verbatim>\<open>error\<close> is a value of the type \<open>'e error\<close>: either an error made outside this
    package (the SDK, the session provider, the OTP generator), which is opaque, or the
    package's own \<^verbatim>\<open>ReceiveMessageTimeout\<close> struct with its two fields. The \<^verbatim>\<open>nil\<close> error
    is \<open>None\<close> of \<open>'e error option\<close>.

  Go's \<^verbatim>\<open>int\<close> is modelled by \<open>int\<close>: in \<^verbatim>\<open>WaitForQueueMessage\<close> every computed integer
  lies between 0 and the caller's \<^verbatim>\<open>timeout\<close>, so no operation can wrap.
\<close>

datatype 'a outcome = Panic | Returned 'a

datatype 'e error =
    SdkError 'e
  | ReceiveMessageTimeout string int  \<comment> \<open>fields \<^verbatim>\<open>QueueUrl\<close>, \<^verbatim>\<open>TimeoutSec\<close>\<close>

datatype Session = Session string

datatype SQS = SQS Session

datatype IAM = IAM Session

definition aws_String :: "string \<Rightarrow> string option" where
  "aws_String s = Some s"

definition aws_Int64 :: "int \<Rightarrow> int option" where
  "aws_Int64 n = Some n"

definition aws_StringSlice :: "string list \<Rightarrow> string option list" where
  "aws_StringSlice ss = map Some ss"

definition aws_StringValue :: "string option \<Rightarrow> string" where
  "aws_StringValue p = (case p of None \<Rightarrow> [] | Some s \<Rightarrow> s)"

subsection \<open>SQS shapes\<close>

record Message =
  MessageId :: "string option"
  ReceiptHandle :: "string option"
  Body :: "string option"

record ReceiveMessageOutput =
  Messages :: "Message list"

record ReceiveMessageInput =
  QueueUrl :: "string option"
  AttributeNames :: "string option list"
  MaxNumberOfMessages :: "int option"
  MessageAttributeNames :: "string option list"
  WaitTimeSeconds :: "int option"

record 'e QueueMessageResponse =
  ReceiptHandle :: string
  MessageBody :: string
  Error :: "'e error option"

subsection \<open>IAM shapes\<close>

record User =
  Arn :: "string option"
  UserName :: "string option"

record GetUserOutput =
  User :: "User option"

record VirtualMFADevice =
  SerialNumber :: "string option"
  Base32StringSeed :: string

record CreateVirtualMFADeviceInput =
  VirtualMFADeviceName :: "string option"

record CreateVirtualMFADeviceOutput =
  VirtualMFADevice :: "VirtualMFADevice option"

record EnableMFADeviceInput =
  AuthenticationCode1 :: "string option"
  AuthenticationCode2 :: "string option"
  SerialNumber :: "string option"
  UserName :: "string option"

subsection \<open>The collaborators\<close>

text \<open>
  Everything the helpers call outside \<^verbatim>\<open>iam.go\<close> and \<^verbatim>\<open>sqs.go\<close> is a parameter, gathered in
  one record. \<open>NewAuthenticatedSession\<close>, \<open>GetTimeBasedOneTimePassword\<close> and the constant
  \<open>defaultRegion\<close> belong to the package but to files that are not part of the sources read
  here; the others are methods of the SDK clients and \<^verbatim>\<open>time.Sleep\<close>.

  \<^item> \<open>ReceiveMessage c n inp\<close> is the answer to the receive call number \<open>n\<close> (from 0) that
    one invocation of the waiter issues on the client \<open>c\<close>.
  \<^item> The IAM flow runs against a virtual clock, counted in seconds. A call on the IAM
    client or on the OTP generator is given the clock at the moment of the call and
    answers with its result and the time it took. \<open>SleepOvershoot now d\<close> is how much
    longer than \<open>d\<close> a \<^verbatim>\<open>time.Sleep\<close> of \<open>d\<close> seconds started at \<open>now\<close> lasts:
    \<^verbatim>\<open>time.Sleep\<close> pauses for at least the duration asked.
\<close>

record 'e env =
  defaultRegion :: string
  NewAuthenticatedSession :: "string \<Rightarrow> Session option \<Rightarrow> 'e error + Session"
  ReceiveMessage :: "SQS \<Rightarrow> nat \<Rightarrow> ReceiveMessageInput \<Rightarrow> 'e error + ReceiveMessageOutput"
  GetUser :: "IAM \<Rightarrow> nat \<Rightarrow> ('e error + GetUserOutput) \<times> nat"
  CreateVirtualMFADevice ::
    "IAM \<Rightarrow> nat \<Rightarrow> CreateVirtualMFADeviceInput \<Rightarrow> ('e error + CreateVirtualMFADeviceOutput) \<times> nat"
  EnableMFADevice :: "IAM \<Rightarrow> nat \<Rightarrow> EnableMFADeviceInput \<Rightarrow> 'e error option \<times> nat"
  GetTimeBasedOneTimePassword :: "nat \<Rightarrow> VirtualMFADevice \<Rightarrow> ('e error + string) \<times> nat"
  SleepOvershoot :: "nat \<Rightarrow> nat \<Rightarrow> nat"

section \<open>The queue waiter (sqs.go)\<close>

text \<open>
  What one invocation of the waiter does to the outside, in order: the two log lines with
  the values formatted into them, and the receive calls with their input.
\<close>

datatype sqs_event =
    Logf_Waiting string int
  | Call_ReceiveMessage ReceiveMessageInput
  | Logf_Received string string

fun receive_calls :: "sqs_event list \<Rightarrow> ReceiveMessageInput list" where
  "receive_calls [] = []"
| "receive_calls (Call_ReceiveMessage inp # es) = inp # receive_calls es"
| "receive_calls (_ # es) = receive_calls es"

text \<open>
  \<^verbatim>\<open>NewSqsClientE(t, region, sessExists ...*session.Session)\<close> reads \<^verbatim>\<open>sessExists[0]\<close>
  without looking at the length of the variadic slice.
\<close>

definition NewSqsClientE ::
  "'e env \<Rightarrow> string \<Rightarrow> Session option list \<Rightarrow> ('e error + SQS) outcome" where
  "NewSqsClientE env region sessExists =
     (case sessExists of
        [] \<Rightarrow> Panic
      | s0 # _ \<Rightarrow>
          (case NewAuthenticatedSession env region s0 of
             Inl err \<Rightarrow> Returned (Inl err)
           | Inr sess \<Rightarrow> Returned (Inr (SQS sess))))"

text \<open>
  Lines 304 to 309 of \<^verbatim>\<open>WaitForQueueMessage\<close>: the pair \<open>(cycles, cycleLength)\<close>. Go's
  \<^verbatim>\<open>/\<close> truncates towards zero; it is only reached with \<open>20 \<le> timeout\<close>, where it is \<open>div\<close>.
\<close>

definition timeBudget :: "int \<Rightarrow> int \<times> int" where
  "timeBudget timeout =
     (let cycles = timeout; cycleLength = 1 in
      if timeout \<ge> 20
      then (let cycleLength = 20; cycles = timeout div cycleLength in (cycles, cycleLength))
      else (cycles, cycleLength))"

definition receiveInput :: "string \<Rightarrow> int \<Rightarrow> ReceiveMessageInput" where
  "receiveInput queueURL cycleLength =
     \<lparr> QueueUrl = aws_String queueURL,
       AttributeNames = aws_StringSlice [''SentTimestamp''],
       MaxNumberOfMessages = aws_Int64 1,
       MessageAttributeNames = aws_StringSlice [''All''],
       WaitTimeSeconds = aws_Int64 cycleLength \<rparr>"

text \<open>
  The loop of lines 311 to 329, from the counter \<open>i\<close> on, with the events so far in \<open>tr\<close>.
  \<^verbatim>\<open>*result.Messages[0].MessageId\<close> is evaluated for the log line before the response is
  built, then \<^verbatim>\<open>*result.Messages[0].ReceiptHandle\<close> and \<^verbatim>\<open>*result.Messages[0].Body\<close>; each
  panics on \<^verbatim>\<open>nil\<close>.
\<close>

function WaitForQueueMessage_loop ::
  "'e env \<Rightarrow> SQS \<Rightarrow> string \<Rightarrow> int \<Rightarrow> int \<Rightarrow> int \<Rightarrow> int \<Rightarrow> sqs_event list
     \<Rightarrow> 'e QueueMessageResponse outcome \<times> sqs_event list" where
  "WaitForQueueMessage_loop env sqsClient queueURL timeout cycleLength cycles i tr =
     (if i < cycles then
        (let tr1 = tr @ [Logf_Waiting queueURL (i * cycleLength)];
             inp = receiveInput queueURL cycleLength;
             tr2 = tr1 @ [Call_ReceiveMessage inp]
         in case ReceiveMessage env sqsClient (nat i) inp of
              Inl err \<Rightarrow>
                (Returned \<lparr> ReceiptHandle = [], MessageBody = [], Error = Some err \<rparr>, tr2)
            | Inr result \<Rightarrow>
                (case Messages result of
                   [] \<Rightarrow>
                     WaitForQueueMessage_loop env sqsClient queueURL timeout cycleLength cycles
                       (i + 1) tr2
                 | m # _ \<Rightarrow>
                     (case MessageId m of
                        None \<Rightarrow> (Panic, tr2)
                      | Some mid \<Rightarrow>
                          (let tr3 = tr2 @ [Logf_Received mid queueURL] in
                           case Message.ReceiptHandle m of
                             None \<Rightarrow> (Panic, tr3)
                           | Some handle \<Rightarrow>
                               (case Body m of
                                  None \<Rightarrow> (Panic, tr3)
                                | Some body \<Rightarrow>
                                    (Returned \<lparr> ReceiptHandle = handle, MessageBody = body,
                                                Error = None \<rparr>, tr3))))))
      else
        (Returned \<lparr> ReceiptHandle = [], MessageBody = [],
                    Error = Some (ReceiveMessageTimeout queueURL timeout) \<rparr>, tr))"
  by pat_completeness auto
termination
  by (relation "measure (\<lambda>(env, sqsClient, queueURL, timeout, cycleLength, cycles, i, tr).
                   nat (cycles - i))") auto

definition WaitForQueueMessage ::
  "'e env \<Rightarrow> string \<Rightarrow> string \<Rightarrow> int \<Rightarrow> Session option list
     \<Rightarrow> 'e QueueMessageResponse outcome \<times> sqs_event list" where
  "WaitForQueueMessage env awsRegion queueURL timeout sessExists =
     (case sessExists of
        [] \<Rightarrow> (Panic, [])
      | s0 # _ \<Rightarrow>
          (case NewSqsClientE env awsRegion [s0] of
             Panic \<Rightarrow> (Panic, [])
           | Returned (Inl err) \<Rightarrow>
               (Returned \<lparr> ReceiptHandle = [], MessageBody = [], Error = Some err \<rparr>, [])
           | Returned (Inr sqsClient) \<Rightarrow>
               (case timeBudget timeout of
                  (cycles, cycleLength) \<Rightarrow>
                    WaitForQueueMessage_loop env sqsClient queueURL timeout cycleLength cycles
                      0 [])))"

section \<open>The MFA device enrollment flow (iam.go)\<close>

text \<open>
  The flow runs in a world made of the virtual clock and of the events so far. An event
  of a call carries the clock when the call started and when it returned; \<open>Slept s d e\<close>
  is a \<^verbatim>\<open>time.Sleep\<close> of \<open>d\<close> seconds that started at \<open>s\<close> and ended at \<open>e\<close>. The four log
  lines are events without duration.
\<close>

datatype 'e iam_event =
    Logf_Creating string
  | Logf_Enabling string
  | Logf_Waiting30
  | Log_Propagate
  | Call_GetUser nat nat
  | Call_CreateVirtualMFADevice nat nat CreateVirtualMFADeviceInput
  | Call_GetTimeBasedOneTimePassword nat nat "'e error + string"
  | Call_EnableMFADevice nat nat EnableMFADeviceInput
  | Slept nat nat nat

record 'e world =
  now :: nat
  trace :: "'e iam_event list"

definition log_event :: "'e iam_event \<Rightarrow> 'e world \<Rightarrow> 'e world" where
  "log_event ev w = w\<lparr> trace := trace w @ [ev] \<rparr>"

definition time_Sleep :: "'e env \<Rightarrow> nat \<Rightarrow> 'e world \<Rightarrow> 'e world" where
  "time_Sleep env d w =
     (let start = now w; finish = start + d + SleepOvershoot env start d
      in w\<lparr> now := finish, trace := trace w @ [Slept start d finish] \<rparr>)"

definition call_GetUser ::
  "'e env \<Rightarrow> IAM \<Rightarrow> 'e world \<Rightarrow> ('e error + GetUserOutput) \<times> 'e world" where
  "call_GetUser env iamClient w =
     (case GetUser env iamClient (now w) of
        (r, d) \<Rightarrow>
          (r, w\<lparr> now := now w + d, trace := trace w @ [Call_GetUser (now w) (now w + d)] \<rparr>))"

definition call_CreateVirtualMFADevice ::
  "'e env \<Rightarrow> IAM \<Rightarrow> CreateVirtualMFADeviceInput \<Rightarrow> 'e world
     \<Rightarrow> ('e error + CreateVirtualMFADeviceOutput) \<times> 'e world" where
  "call_CreateVirtualMFADevice env iamClient inp w =
     (case CreateVirtualMFADevice env iamClient (now w) inp of
        (r, d) \<Rightarrow>
          (r, w\<lparr> now := now w + d,
                 trace := trace w @ [Call_CreateVirtualMFADevice (now w) (now w + d) inp] \<rparr>))"

definition call_GetTimeBasedOneTimePassword ::
  "'e env \<Rightarrow> VirtualMFADevice \<Rightarrow> 'e world \<Rightarrow> ('e error + string) \<times> 'e world" where
  "call_GetTimeBasedOneTimePassword env mfaDevice w =
     (case GetTimeBasedOneTimePassword env (now w) mfaDevice of
        (r, d) \<Rightarrow>
          (r, w\<lparr> now := now w + d,
                 trace := trace w @ [Call_GetTimeBasedOneTimePassword (now w) (now w + d) r] \<rparr>))"

definition call_EnableMFADevice ::
  "'e env \<Rightarrow> IAM \<Rightarrow> EnableMFADeviceInput \<Rightarrow> 'e world \<Rightarrow> 'e error option \<times> 'e world" where
  "call_EnableMFADevice env iamClient inp w =
     (case EnableMFADevice env iamClient (now w) inp of
        (r, d) \<Rightarrow>
          (r, w\<lparr> now := now w + d,
                 trace := trace w @ [Call_EnableMFADevice (now w) (now w + d) inp] \<rparr>))"

text \<open>
  The functions that return a Go pair \<^verbatim>\<open>(value, error)\<close> with \<^verbatim>\<open>return zero, err\<close> on every
  error path and \<^verbatim>\<open>return value, nil\<close> otherwise are given a sum: \<open>Inl err\<close> is the pair
  \<^verbatim>\<open>(zero, err)\<close> and \<open>Inr v\<close> the pair \<^verbatim>\<open>(v, nil)\<close>. \<^verbatim>\<open>CreateMfaDeviceE\<close> keeps the pair, its
  first component being a pointer.
\<close>

definition NewIamClientE ::
  "'e env \<Rightarrow> string \<Rightarrow> Session option list \<Rightarrow> ('e error + IAM) outcome" where
  "NewIamClientE env region sessExists =
     (case sessExists of
        [] \<Rightarrow> Panic
      | s0 # _ \<Rightarrow>
          (case NewAuthenticatedSession env region s0 of
             Inl err \<Rightarrow> Returned (Inl err)
           | Inr sess \<Rightarrow> Returned (Inr (IAM sess))))"

text \<open>\<^verbatim>\<open>*resp.User.Arn\<close> panics when the response has no user or the user no ARN.\<close>

definition GetIamCurrentUserArnE ::
  "'e env \<Rightarrow> Session option list \<Rightarrow> 'e world \<Rightarrow> ('e error + string) outcome \<times> 'e world" where
  "GetIamCurrentUserArnE env sessExists w =
     (case sessExists of
        [] \<Rightarrow> (Panic, w)
      | s0 # _ \<Rightarrow>
          (case NewIamClientE env (defaultRegion env) [s0] of
             Panic \<Rightarrow> (Panic, w)
           | Returned (Inl err) \<Rightarrow> (Returned (Inl err), w)
           | Returned (Inr iamClient) \<Rightarrow>
               (case call_GetUser env iamClient w of
                  (Inl err, w1) \<Rightarrow> (Returned (Inl err), w1)
                | (Inr resp, w1) \<Rightarrow>
                    (case User resp of
                       None \<Rightarrow> (Panic, w1)
                     | Some u \<Rightarrow>
                         (case Arn u of
                            None \<Rightarrow> (Panic, w1)
                          | Some arn \<Rightarrow> (Returned (Inr arn), w1))))))"

definition GetIamCurrentUserNameE ::
  "'e env \<Rightarrow> Session option list \<Rightarrow> 'e world \<Rightarrow> ('e error + string) outcome \<times> 'e world" where
  "GetIamCurrentUserNameE env sessExists w =
     (case sessExists of
        [] \<Rightarrow> (Panic, w)
      | s0 # _ \<Rightarrow>
          (case NewIamClientE env (defaultRegion env) [s0] of
             Panic \<Rightarrow> (Panic, w)
           | Returned (Inl err) \<Rightarrow> (Returned (Inl err), w)
           | Returned (Inr iamClient) \<Rightarrow>
               (case call_GetUser env iamClient w of
                  (Inl err, w1) \<Rightarrow> (Returned (Inl err), w1)
                | (Inr resp, w1) \<Rightarrow>
                    (case User resp of
                       None \<Rightarrow> (Panic, w1)
                     | Some u \<Rightarrow>
                         (case User.UserName u of
                            None \<Rightarrow> (Panic, w1)
                          | Some name \<Rightarrow> (Returned (Inr name), w1))))))"

text \<open>
  The wrappers without the final \<^verbatim>\<open>E\<close> end the test with \<^verbatim>\<open>t.Fatal(err)\<close> on an error; the
  one of \<^verbatim>\<open>GetIamCurrentUserNameE\<close> stands for all of them.
\<close>

datatype ('e, 'a) or_fatal = Fatal "'e error" | Value 'a

definition GetIamCurrentUserName ::
  "'e env \<Rightarrow> Session option list \<Rightarrow> 'e world \<Rightarrow> ('e, string) or_fatal outcome \<times> 'e world" where
  "GetIamCurrentUserName env sessExists w =
     (case sessExists of
        [] \<Rightarrow> (Panic, w)
      | s0 # _ \<Rightarrow>
          (case GetIamCurrentUserNameE env [s0] w of
             (Panic, w1) \<Rightarrow> (Panic, w1)
           | (Returned (Inl err), w1) \<Rightarrow> (Returned (Fatal err), w1)
           | (Returned (Inr out), w1) \<Rightarrow> (Returned (Value out), w1)))"

text \<open>
  \<^verbatim>\<open>EnableMfaDeviceE\<close> returns an \<^verbatim>\<open>error\<close>: \<open>Returned None\<close> is \<^verbatim>\<open>return nil\<close>. The argument
  of the first log line reads \<^verbatim>\<open>mfaDevice.SerialNumber\<close>, which panics on a \<^verbatim>\<open>nil\<close> device.
\<close>

definition EnableMfaDeviceE ::
  "'e env \<Rightarrow> IAM \<Rightarrow> VirtualMFADevice option \<Rightarrow> Session option list \<Rightarrow> 'e world
     \<Rightarrow> 'e error option outcome \<times> 'e world" where
  "EnableMfaDeviceE env iamClient mfaDevice sessExists w =
     (case mfaDevice of
        None \<Rightarrow> (Panic, w)
      | Some dev \<Rightarrow>
          (let w0 = log_event (Logf_Enabling (aws_StringValue (VirtualMFADevice.SerialNumber dev))) w in
           case sessExists of
             [] \<Rightarrow> (Panic, w0)
           | s0 # _ \<Rightarrow>
               (case GetIamCurrentUserArnE env [s0] w0 of
                  (Panic, w1) \<Rightarrow> (Panic, w1)
                | (Returned (Inl err), w1) \<Rightarrow> (Returned (Some err), w1)
                | (Returned (Inr iamUserName), w1) \<Rightarrow>
                    (case call_GetTimeBasedOneTimePassword env dev w1 of
                       (Inl err, w2) \<Rightarrow> (Returned (Some err), w2)
                     | (Inr authCode1, w2) \<Rightarrow>
                         (let w3 = time_Sleep env 30 (log_event Logf_Waiting30 w2) in
                          case call_GetTimeBasedOneTimePassword env dev w3 of
                            (Inl err, w4) \<Rightarrow> (Returned (Some err), w4)
                          | (Inr authCode2, w4) \<Rightarrow>
                              (case call_EnableMFADevice env iamClient
                                      \<lparr> AuthenticationCode1 = aws_String authCode1,
                                        AuthenticationCode2 = aws_String authCode2,
                                        SerialNumber = VirtualMFADevice.SerialNumber dev,
                                        UserName = aws_String iamUserName \<rparr> w4 of
                                 (Some err, w5) \<Rightarrow> (Returned (Some err), w5)
                               | (None, w5) \<Rightarrow>
                                   (Returned None,
                                    time_Sleep env 10 (log_event Log_Propagate w5))))))))"

definition CreateMfaDeviceE ::
  "'e env \<Rightarrow> IAM \<Rightarrow> string \<Rightarrow> Session option list \<Rightarrow> 'e world
     \<Rightarrow> (VirtualMFADevice option \<times> 'e error option) outcome \<times> 'e world" where
  "CreateMfaDeviceE env iamClient deviceName sessExists w =
     (let w0 = log_event (Logf_Creating deviceName) w in
      case call_CreateVirtualMFADevice env iamClient
             \<lparr> VirtualMFADeviceName = aws_String deviceName \<rparr> w0 of
        (Inl err, w1) \<Rightarrow> (Returned (None, Some err), w1)
      | (Inr output, w1) \<Rightarrow>
          (case sessExists of
             [] \<Rightarrow> (Panic, w1)
           | s0 # _ \<Rightarrow>
               (case EnableMfaDeviceE env iamClient (VirtualMFADevice output) [s0] w1 of
                  (Panic, w2) \<Rightarrow> (Panic, w2)
                | (Returned (Some err), w2) \<Rightarrow> (Returned (None, Some err), w2)
                | (Returned None, w2) \<Rightarrow> (Returned (VirtualMFADevice output, None), w2))))"

text \<open>What a trace says about the one-time codes that were generated and the enable calls.\<close>

fun otp_codes :: "'e iam_event list \<Rightarrow> (nat \<times> nat \<times> string) list" where
  "otp_codes [] = []"
| "otp_codes (Call_GetTimeBasedOneTimePassword s e (Inr code) # es) = (s, e, code) # otp_codes es"
| "otp_codes (_ # es) = otp_codes es"

fun enable_calls :: "'e iam_event list \<Rightarrow> (nat \<times> nat \<times> EnableMFADeviceInput) list" where
  "enable_calls [] = []"
| "enable_calls (Call_EnableMFADevice s e inp # es) = (s, e, inp) # enable_calls es"
| "enable_calls (_ # es) = enable_calls es"


section \<open>Vocabulary of the statements\<close>

text \<open>
  The definitions of this section are not code of the package; the theorems are stated with
  them. \<open>quiet_rounds queueURL cycleLength i n\<close> is what \<open>n\<close> rounds of the waiter's loop
  do, from the counter \<open>i\<close> on, when none of them gets a message or an error;
  \<open>no_message env sqsClient inp n\<close> says that the receive call number \<open>n\<close> succeeds with an
  empty list of messages; \<open>timeoutResponse\<close> is the value of line 331.
\<close>

fun quiet_rounds :: "string \<Rightarrow> int \<Rightarrow> int \<Rightarrow> nat \<Rightarrow> sqs_event list" where
  "quiet_rounds queueURL cycleLength i 0 = []"
| "quiet_rounds queueURL cycleLength i (Suc n) =
     Logf_Waiting queueURL (i * cycleLength)
       # Call_ReceiveMessage (receiveInput queueURL cycleLength)
       # quiet_rounds queueURL cycleLength (i + 1) n"

definition no_message :: "'e env \<Rightarrow> SQS \<Rightarrow> ReceiveMessageInput \<Rightarrow> nat \<Rightarrow> bool" where
  "no_message env sqsClient inp n =
     (case ReceiveMessage env sqsClient n inp of
        Inl err \<Rightarrow> False
      | Inr result \<Rightarrow> Messages result = [])"

definition timeoutResponse :: "string \<Rightarrow> int \<Rightarrow> 'e QueueMessageResponse" where
  "timeoutResponse queueURL timeout =
     \<lparr> ReceiptHandle = [], MessageBody = [],
       Error = Some (ReceiveMessageTimeout queueURL timeout) \<rparr>"

section \<open>Example environments\<close>

text \<open>
  Concrete collaborators, on which the theorems are instantiated: a provider that hands
  back the session it is given or makes one for the region, an empty queue, an IAM that
  accepts every call, a one-time code that changes with each window of 30 seconds and a
  sleep that lasts exactly as asked; then variants where the third receive call fails,
  where the second one brings a message, where the creation of the device fails and where
  its enabling fails.
\<close>

definition example_env :: "string env" where
  "example_env =
     \<lparr> defaultRegion = ''us-east-1'',
       NewAuthenticatedSession =
         (\<lambda>region s. case s of None \<Rightarrow> Inr (Session region) | Some sess \<Rightarrow> Inr sess),
       ReceiveMessage = (\<lambda>c n inp. Inr \<lparr> Messages = [] \<rparr>),
       GetUser =
         (\<lambda>c t. (Inr \<lparr> User = Some \<lparr> Arn = Some ''arn:aws:iam::123456789012:user/ci'',
                                     User.UserName = Some ''ci'' \<rparr> \<rparr>, 1)),
       CreateVirtualMFADevice =
         (\<lambda>c t inp.
            (Inr \<lparr> VirtualMFADevice =
                     Some \<lparr> VirtualMFADevice.SerialNumber = Some ''arn:aws:iam::123456789012:mfa/dev'',
                            Base32StringSeed = ''JBSWY3DPEHPK3PXP'' \<rparr> \<rparr>, 2)),
       EnableMFADevice = (\<lambda>c t inp. (None, 1)),
       GetTimeBasedOneTimePassword =
         (\<lambda>t dev. (Inr (if even (t div 30) then ''492039'' else ''287082''), 0)),
       SleepOvershoot = (\<lambda>t d. 0) \<rparr>"

definition error_on_third_env :: "string env" where
  "error_on_third_env =
     example_env \<lparr> ReceiveMessage :=
       (\<lambda>c n inp. if n = 2 then Inl (SdkError ''RequestError: send request failed'')
                  else Inr \<lparr> Messages = [] \<rparr>) \<rparr>"

definition message_on_second_env :: "string env" where
  "message_on_second_env =
     example_env \<lparr> ReceiveMessage :=
       (\<lambda>c n inp. if n = 1
                  then Inr \<lparr> Messages = [\<lparr> MessageId = Some ''id-1'',
                                            Message.ReceiptHandle = Some ''handle-1'',
                                            Body = Some ''hello'' \<rparr>] \<rparr>
                  else Inr \<lparr> Messages = [] \<rparr>) \<rparr>"


definition example_device :: VirtualMFADevice where
  "example_device =
     \<lparr> VirtualMFADevice.SerialNumber = Some ''arn:aws:iam::123456789012:mfa/dev'',
       Base32StringSeed = ''JBSWY3DPEHPK3PXP'' \<rparr>"

definition create_fails_env :: "string env" where
  "create_fails_env =
     example_env \<lparr> CreateVirtualMFADevice :=
       (\<lambda>c t inp. (Inl (SdkError ''LimitExceeded: virtual MFA devices''), 1)) \<rparr>"

definition enable_fails_env :: "string env" where
  "enable_fails_env =
     example_env \<lparr> EnableMFADevice :=
       (\<lambda>c t inp. (Some (SdkError ''InvalidAuthenticationCode''), 1)) \<rparr>"

section \<open>Properties of the queue waiter\<close>

declare WaitForQueueMessage_loop.simps [simp del]

lemma receive_calls_append: "receive_calls (xs @ ys) = receive_calls xs @ receive_calls ys"
  by (induction xs rule: receive_calls.induct) simp_all

lemma receive_calls_quiet_rounds:
  "receive_calls (quiet_rounds q cl i n) = replicate n (receiveInput q cl)"
  by (induction n arbitrary: i) simp_all

lemma loop_quiet_step:
  assumes "i < cycles" and "0 \<le> i" and "no_message env c (receiveInput q cl) (nat i)"
  shows "WaitForQueueMessage_loop env c q t cl cycles i tr =
         WaitForQueueMessage_loop env c q t cl cycles (i + 1)
           (tr @ [Logf_Waiting q (i * cl), Call_ReceiveMessage (receiveInput q cl)])"
  using assms
  by (subst WaitForQueueMessage_loop.simps)
     (simp add: no_message_def split: sum.splits list.splits)

lemma loop_skip:
  assumes "\<forall>j<n. no_message env c (receiveInput q cl) (nat i + j)"
    and "0 \<le> i" and "i + int n \<le> cycles"
  shows "WaitForQueueMessage_loop env c q t cl cycles i tr =
         WaitForQueueMessage_loop env c q t cl cycles (i + int n) (tr @ quiet_rounds q cl i n)"
  using assms
proof (induction n arbitrary: i tr)
  case 0
  then show ?case by simp
next
  case (Suc n)
  have first: "no_message env c (receiveInput q cl) (nat i)"
    using Suc.prems(1) by (metis add.right_neutral zero_less_Suc)
  have rest: "\<forall>j<n. no_message env c (receiveInput q cl) (nat (i + 1) + j)"
  proof (intro allI impI)
    fix j assume "j < n"
    then have "Suc j < Suc n" by simp
    then have "no_message env c (receiveInput q cl) (nat i + Suc j)"
      using Suc.prems(1) by blast
    moreover have "nat (i + 1) + j = nat i + Suc j" using Suc.prems(2) by simp
    ultimately show "no_message env c (receiveInput q cl) (nat (i + 1) + j)" by simp
  qed
  have "WaitForQueueMessage_loop env c q t cl cycles i tr =
        WaitForQueueMessage_loop env c q t cl cycles (i + 1)
          (tr @ [Logf_Waiting q (i * cl), Call_ReceiveMessage (receiveInput q cl)])"
    using Suc.prems first by (intro loop_quiet_step) simp_all
  also have "\<dots> = WaitForQueueMessage_loop env c q t cl cycles (i + 1 + int n)
          ((tr @ [Logf_Waiting q (i * cl), Call_ReceiveMessage (receiveInput q cl)])
             @ quiet_rounds q cl (i + 1) n)"
    using Suc.prems rest by (intro Suc.IH) simp_all
  finally show ?case by (simp add: add.assoc add.commute add.left_commute)
qed

lemma loop_exhausted:
  "\<not> i < cycles \<Longrightarrow>
   WaitForQueueMessage_loop env c q t cl cycles i tr = (Returned (timeoutResponse q t), tr)"
  by (subst WaitForQueueMessage_loop.simps) (simp add: timeoutResponse_def)

lemma loop_error_step:
  assumes "i < cycles" and "ReceiveMessage env c (nat i) (receiveInput q cl) = Inl err"
  shows "WaitForQueueMessage_loop env c q t cl cycles i tr =
         (Returned \<lparr> ReceiptHandle = [], MessageBody = [], Error = Some err \<rparr>,
          tr @ [Logf_Waiting q (i * cl), Call_ReceiveMessage (receiveInput q cl)])"
  using assms by (subst WaitForQueueMessage_loop.simps) simp

lemma loop_message_step:
  assumes "i < cycles" and "ReceiveMessage env c (nat i) (receiveInput q cl) = Inr result"
    and "Messages result = m # ms" and "MessageId m = Some mid"
    and "Message.ReceiptHandle m = Some handle" and "Body m = Some body"
  shows "WaitForQueueMessage_loop env c q t cl cycles i tr =
         (Returned \<lparr> ReceiptHandle = handle, MessageBody = body, Error = None \<rparr>,
          tr @ [Logf_Waiting q (i * cl), Call_ReceiveMessage (receiveInput q cl),
                Logf_Received mid q])"
  using assms by (subst WaitForQueueMessage_loop.simps) simp

lemma loop_message_calls:
  assumes "i < cycles" and "ReceiveMessage env c (nat i) (receiveInput q cl) = Inr result"
    and "Messages result = m # ms"
  shows "receive_calls (snd (WaitForQueueMessage_loop env c q t cl cycles i tr)) =
         receive_calls tr @ [receiveInput q cl]"
  using assms
  by (subst WaitForQueueMessage_loop.simps)
     (simp add: receive_calls_append Let_def split: option.splits)

lemma WaitForQueueMessage_with_client:
  assumes "NewAuthenticatedSession env awsRegion s0 = Inr sess"
    and "timeBudget timeout = (cycles, cl)"
  shows "WaitForQueueMessage env awsRegion queueURL timeout (s0 # rest) =
         WaitForQueueMessage_loop env (SQS sess) queueURL timeout cl cycles 0 []"
  using assms by (simp add: WaitForQueueMessage_def NewSqsClientE_def)


lemma WaitForQueueMessage_quiet:
  assumes "NewAuthenticatedSession env awsRegion s0 = Inr sess"
    and "timeBudget timeout = (cycles, cl)"
    and "\<forall>j<nat cycles. no_message env (SQS sess) (receiveInput queueURL cl) j"
  shows "WaitForQueueMessage env awsRegion queueURL timeout (s0 # rest) =
         (Returned (timeoutResponse queueURL timeout), quiet_rounds queueURL cl 0 (nat cycles))"
proof -
  have "WaitForQueueMessage_loop env (SQS sess) queueURL timeout cl cycles 0 [] =
        (Returned (timeoutResponse queueURL timeout), quiet_rounds queueURL cl 0 (nat cycles))"
  proof (cases "0 \<le> cycles")
    case True
    have "WaitForQueueMessage_loop env (SQS sess) queueURL timeout cl cycles 0 [] =
          WaitForQueueMessage_loop env (SQS sess) queueURL timeout cl cycles (0 + int (nat cycles))
            ([] @ quiet_rounds queueURL cl 0 (nat cycles))"
      using assms(3) True by (intro loop_skip) simp_all
    also have "\<dots> = (Returned (timeoutResponse queueURL timeout),
                      [] @ quiet_rounds queueURL cl 0 (nat cycles))"
      using True by (intro loop_exhausted) simp
    finally show ?thesis by simp
  next
    case False
    then show ?thesis by (simp add: loop_exhausted)
  qed
  then show ?thesis
    using assms(1,2) by (simp add: WaitForQueueMessage_with_client)
qed

lemma WaitForQueueMessage_reaches:
  assumes "NewAuthenticatedSession env awsRegion s0 = Inr sess"
    and "timeBudget timeout = (cycles, cl)"
    and "int k < cycles"
    and "\<forall>j<k. no_message env (SQS sess) (receiveInput queueURL cl) j"
  shows "WaitForQueueMessage env awsRegion queueURL timeout (s0 # rest) =
         WaitForQueueMessage_loop env (SQS sess) queueURL timeout cl cycles (int k)
           (quiet_rounds queueURL cl 0 k)"
proof -
  have "WaitForQueueMessage_loop env (SQS sess) queueURL timeout cl cycles 0 [] =
        WaitForQueueMessage_loop env (SQS sess) queueURL timeout cl cycles (0 + int k)
          ([] @ quiet_rounds queueURL cl 0 k)"
    using assms(3,4) by (intro loop_skip) simp_all
  then show ?thesis
    using assms(1,2) by (simp add: WaitForQueueMessage_with_client)
qed

lemma timeBudget_cases:
  "timeBudget timeout = (if timeout \<ge> 20 then (timeout div 20, 20) else (timeout, 1))"
  by (simp add: timeBudget_def)

text \<open>
  Claim C1, as amended. For every \<open>timeout\<close> from 1 to 20 the waiter's chunk length is 20
  when \<open>timeout = 20\<close> and 1 otherwise, and, when the session is obtained and no receive
  call brings a message or an error, the waiter issues exactly \<open>timeout div chunkSeconds\<close>
  receive calls (\<open>timeout\<close> calls below 20, one call at 20), each with
  \<^verbatim>\<open>WaitTimeSeconds\<close> equal to the chunk length.
\<close>

theorem short_timeout_polls_every_second:
  assumes "1 \<le> timeout" and "timeout \<le> 20"
    and "NewAuthenticatedSession env awsRegion s0 = Inr sess"
    and "\<forall>j<nat (fst (timeBudget timeout)).
           no_message env (SQS sess) (receiveInput queueURL (snd (timeBudget timeout))) j"
  shows "let chunkSeconds = (if timeout = 20 then 20 else 1) in
           snd (timeBudget timeout) = chunkSeconds \<and>
           map WaitTimeSeconds
               (receive_calls (snd (WaitForQueueMessage env awsRegion queueURL timeout (s0 # rest))))
             = replicate (nat (timeout div chunkSeconds)) (Some chunkSeconds)"
proof -
  obtain cycles cl where tb: "timeBudget timeout = (cycles, cl)"
    by (cases "timeBudget timeout")
  have run: "WaitForQueueMessage env awsRegion queueURL timeout (s0 # rest) =
         (Returned (timeoutResponse queueURL timeout), quiet_rounds queueURL cl 0 (nat cycles))"
    using assms(3,4) tb by (intro WaitForQueueMessage_quiet) simp_all
  have vals: "cl = (if timeout = 20 then 20 else 1)" "cycles = timeout div cl"
    using tb assms(1,2) by (auto simp: timeBudget_cases split: if_splits)
  show ?thesis
    using tb vals
    by (simp add: run receive_calls_quiet_rounds receiveInput_def aws_Int64_def Let_def)
qed

theorem short_timeout_polls_every_second_witness:
  "(1::int) \<le> 5 \<and> (5::int) \<le> 20 \<and>
   NewAuthenticatedSession example_env ''eu-west-1'' None = Inr (Session ''eu-west-1'') \<and>
   list_all (no_message example_env (SQS (Session ''eu-west-1''))
               (receiveInput ''https://sqs/q'' (snd (timeBudget 5))))
     [0..<nat (fst (timeBudget 5))] \<and>
   snd (timeBudget 5) = 1 \<and>
   map WaitTimeSeconds
     (receive_calls (snd (WaitForQueueMessage example_env ''eu-west-1'' ''https://sqs/q'' 5 [None])))
     = [Some 1, Some 1, Some 1, Some 1, Some 1]"
proof -
  have s: "NewAuthenticatedSession example_env ''eu-west-1'' None = Inr (Session ''eu-west-1'')"
    by (simp add: example_env_def)
  have q: "\<forall>j<nat (fst (timeBudget 5)).
      no_message example_env (SQS (Session ''eu-west-1''))
        (receiveInput ''https://sqs/q'' (snd (timeBudget 5))) j"
    by (simp add: no_message_def example_env_def)
  show ?thesis
    using s q short_timeout_polls_every_second [of 5 example_env "''eu-west-1''" None
        "Session ''eu-west-1''" "''https://sqs/q''" "[]"]
    by (simp add: timeBudget_cases numeral_eq_Suc list_all_iff)
qed

text \<open>
  The claim C1 as written asks for a chunk of \<open>min timeout 20\<close> seconds and one receive
  call of \<open>timeout\<close> seconds. At \<open>timeout = 5\<close> with an empty queue the chunk is 1 second
  and five receive calls of 1 second are issued.
\<close>

theorem one_receive_of_whole_timeout_counterexample:
  "min (5::int) 20 = 5 \<and> snd (timeBudget 5) = 1 \<and>
   WaitForQueueMessage example_env ''eu-west-1'' ''https://sqs/q'' 5 [None] =
     (Returned (timeoutResponse ''https://sqs/q'' 5),
      [Logf_Waiting ''https://sqs/q'' 0, Call_ReceiveMessage (receiveInput ''https://sqs/q'' 1),
       Logf_Waiting ''https://sqs/q'' 1, Call_ReceiveMessage (receiveInput ''https://sqs/q'' 1),
       Logf_Waiting ''https://sqs/q'' 2, Call_ReceiveMessage (receiveInput ''https://sqs/q'' 1),
       Logf_Waiting ''https://sqs/q'' 3, Call_ReceiveMessage (receiveInput ''https://sqs/q'' 1),
       Logf_Waiting ''https://sqs/q'' 4, Call_ReceiveMessage (receiveInput ''https://sqs/q'' 1)]) \<and>
   WaitTimeSeconds (receiveInput ''https://sqs/q'' 1) = Some 1"
proof -
  have s: "NewAuthenticatedSession example_env ''eu-west-1'' None = Inr (Session ''eu-west-1'')"
    by (simp add: example_env_def)
  have tb: "timeBudget 5 = (5, 1)" by (simp add: timeBudget_cases)
  have q: "\<forall>j<nat 5.
      no_message example_env (SQS (Session ''eu-west-1'')) (receiveInput ''https://sqs/q'' 1) j"
    by (simp add: no_message_def example_env_def)
  show ?thesis
    using WaitForQueueMessage_quiet [OF s tb q, where rest = "[]"] tb
    by (simp add: numeral_eq_Suc receiveInput_def aws_Int64_def)
qed


text \<open>
  Claim C2. For every \<open>timeout\<close> above 20, when the session is obtained and no receive call
  brings a message or an error, the waiter issues exactly \<open>timeout div 20\<close> receive calls,
  each with \<^verbatim>\<open>WaitTimeSeconds\<close> 20, and reports the timeout; the remainder of the division
  is not waited for (\<open>20 * (timeout div 20) \<le> timeout\<close>, with equality only at a multiple
  of 20). At \<open>timeout = 25\<close>, the witness, this is one call of 20 seconds.
\<close>

theorem long_timeout_floor_of_twenty:
  assumes "20 < timeout"
    and "NewAuthenticatedSession env awsRegion s0 = Inr sess"
    and "\<forall>j<nat (timeout div 20). no_message env (SQS sess) (receiveInput queueURL 20) j"
  shows "map WaitTimeSeconds
             (receive_calls (snd (WaitForQueueMessage env awsRegion queueURL timeout (s0 # rest))))
           = replicate (nat (timeout div 20)) (Some 20) \<and>
         fst (WaitForQueueMessage env awsRegion queueURL timeout (s0 # rest))
           = Returned \<lparr> ReceiptHandle = [], MessageBody = [],
                        Error = Some (ReceiveMessageTimeout queueURL timeout) \<rparr> \<and>
         20 * (timeout div 20) = timeout - timeout mod 20"
proof -
  have tb: "timeBudget timeout = (timeout div 20, 20)"
    using assms(1) by (simp add: timeBudget_cases)
  have run: "WaitForQueueMessage env awsRegion queueURL timeout (s0 # rest) =
         (Returned (timeoutResponse queueURL timeout),
          quiet_rounds queueURL 20 0 (nat (timeout div 20)))"
    using assms(2) tb assms(3) by (rule WaitForQueueMessage_quiet)
  have "20 * (timeout div 20) = timeout - timeout mod 20"
    by (simp add: minus_mod_eq_mult_div)
  then show ?thesis
    by (simp add: run receive_calls_quiet_rounds receiveInput_def aws_Int64_def
          timeoutResponse_def)
qed

theorem long_timeout_floor_of_twenty_witness:
  "(20::int) < 25 \<and>
   NewAuthenticatedSession example_env ''eu-west-1'' None = Inr (Session ''eu-west-1'') \<and>
   list_all (no_message example_env (SQS (Session ''eu-west-1''))
               (receiveInput ''https://sqs/q'' 20)) [0..<nat (25 div 20)] \<and>
   map WaitTimeSeconds
     (receive_calls (snd (WaitForQueueMessage example_env ''eu-west-1'' ''https://sqs/q'' 25 [None])))
     = [Some 20] \<and>
   fst (WaitForQueueMessage example_env ''eu-west-1'' ''https://sqs/q'' 25 [None])
     = Returned \<lparr> ReceiptHandle = [], MessageBody = [],
                  Error = Some (ReceiveMessageTimeout ''https://sqs/q'' 25) \<rparr>"
proof -
  have s: "NewAuthenticatedSession example_env ''eu-west-1'' None = Inr (Session ''eu-west-1'')"
    by (simp add: example_env_def)
  have q: "\<forall>j<nat (25 div 20).
      no_message example_env (SQS (Session ''eu-west-1'')) (receiveInput ''https://sqs/q'' 20) j"
    by (simp add: no_message_def example_env_def)
  show ?thesis
    using s q long_timeout_floor_of_twenty [of 25 example_env "''eu-west-1''" None
        "Session ''eu-west-1''" "''https://sqs/q''" "[]"]
    by (simp add: list_all_iff)
qed

text \<open>
  Claim C3. When the session is obtained, the receive calls number 0 to \<open>k - 1\<close> succeed
  without a message and the receive call number \<open>k\<close> (one of the \<open>cycles\<close> calls of the
  budget) fails with \<open>err\<close>, the waiter returns the response whose \<^verbatim>\<open>Error\<close> is \<open>err\<close> itself,
  and the receive calls it has issued are these \<open>k + 1\<close>: none follows the failed one.
\<close>

theorem transport_error_ends_the_wait:
  assumes "NewAuthenticatedSession env awsRegion s0 = Inr sess"
    and "timeBudget timeout = (cycles, cycleLength)"
    and "int k < cycles"
    and "\<forall>j<k. no_message env (SQS sess) (receiveInput queueURL cycleLength) j"
    and "ReceiveMessage env (SQS sess) k (receiveInput queueURL cycleLength) = Inl err"
  shows "fst (WaitForQueueMessage env awsRegion queueURL timeout (s0 # rest))
           = Returned \<lparr> ReceiptHandle = [], MessageBody = [], Error = Some err \<rparr> \<and>
         receive_calls (snd (WaitForQueueMessage env awsRegion queueURL timeout (s0 # rest)))
           = replicate (Suc k) (receiveInput queueURL cycleLength)"
proof -
  have "WaitForQueueMessage env awsRegion queueURL timeout (s0 # rest) =
        WaitForQueueMessage_loop env (SQS sess) queueURL timeout cycleLength cycles (int k)
          (quiet_rounds queueURL cycleLength 0 k)"
    using assms(1-4) by (rule WaitForQueueMessage_reaches)
  also have "\<dots> =
        (Returned \<lparr> ReceiptHandle = [], MessageBody = [], Error = Some err \<rparr>,
         quiet_rounds queueURL cycleLength 0 k
           @ [Logf_Waiting queueURL (int k * cycleLength),
              Call_ReceiveMessage (receiveInput queueURL cycleLength)])"
    using assms(3,5) by (intro loop_error_step) simp_all
  finally show ?thesis
    by (simp add: receive_calls_append receive_calls_quiet_rounds replicate_append_same)
qed

theorem transport_error_ends_the_wait_witness:
  "NewAuthenticatedSession error_on_third_env ''eu-west-1'' None = Inr (Session ''eu-west-1'') \<and>
   timeBudget 100 = (5, 20) \<and> int 2 < 5 \<and>
   list_all (no_message error_on_third_env (SQS (Session ''eu-west-1''))
               (receiveInput ''https://sqs/q'' 20)) [0..<2] \<and>
   ReceiveMessage error_on_third_env (SQS (Session ''eu-west-1'')) 2
       (receiveInput ''https://sqs/q'' 20)
     = Inl (SdkError ''RequestError: send request failed'') \<and>
   fst (WaitForQueueMessage error_on_third_env ''eu-west-1'' ''https://sqs/q'' 100 [None])
     = Returned \<lparr> ReceiptHandle = [], MessageBody = [],
                  Error = Some (SdkError ''RequestError: send request failed'') \<rparr> \<and>
   length (receive_calls
             (snd (WaitForQueueMessage error_on_third_env ''eu-west-1'' ''https://sqs/q'' 100 [None])))
     = 3"
proof -
  have s: "NewAuthenticatedSession error_on_third_env ''eu-west-1'' None
             = Inr (Session ''eu-west-1'')"
    by (simp add: error_on_third_env_def example_env_def)
  have tb: "timeBudget 100 = (5, 20)" by (simp add: timeBudget_cases)
  have k: "int 2 < 5" by simp
  have q: "\<forall>j<2. no_message error_on_third_env (SQS (Session ''eu-west-1''))
                   (receiveInput ''https://sqs/q'' 20) j"
    by (simp add: no_message_def error_on_third_env_def)
  have e: "ReceiveMessage error_on_third_env (SQS (Session ''eu-west-1'')) 2
             (receiveInput ''https://sqs/q'' 20)
           = Inl (SdkError ''RequestError: send request failed'')"
    by (simp add: error_on_third_env_def)
  show ?thesis
    using s tb q e transport_error_ends_the_wait [OF s tb k q e, where rest = "[]"]
    by (simp add: list_all_iff)
qed

text \<open>
  Claim C4. When the session is obtained, the receive calls number 0 to \<open>k - 1\<close> succeed
  without a message and the receive call number \<open>k\<close> returns at least one message, the
  receive calls the waiter has issued are these \<open>k + 1\<close>: the calls \<open>k + 1\<close> to
  \<open>cycles - 1\<close> are never made. When the first message carries its id, its receipt handle
  and its body (as every message delivered by the queue does), the waiter returns the
  response made of that receipt handle and that body, with no error.
\<close>

theorem message_ends_the_wait:
  assumes "NewAuthenticatedSession env awsRegion s0 = Inr sess"
    and "timeBudget timeout = (cycles, cycleLength)"
    and "int k < cycles"
    and "\<forall>j<k. no_message env (SQS sess) (receiveInput queueURL cycleLength) j"
    and "ReceiveMessage env (SQS sess) k (receiveInput queueURL cycleLength) = Inr result"
    and "Messages result = m # ms"
  shows "receive_calls (snd (WaitForQueueMessage env awsRegion queueURL timeout (s0 # rest)))
           = replicate (Suc k) (receiveInput queueURL cycleLength) \<and>
         (\<forall>mid handle body.
            MessageId m = Some mid \<and> Message.ReceiptHandle m = Some handle \<and> Body m = Some body
            \<longrightarrow> fst (WaitForQueueMessage env awsRegion queueURL timeout (s0 # rest))
                  = Returned \<lparr> ReceiptHandle = handle, MessageBody = body, Error = None \<rparr>)"
proof -
  have reach: "WaitForQueueMessage env awsRegion queueURL timeout (s0 # rest) =
        WaitForQueueMessage_loop env (SQS sess) queueURL timeout cycleLength cycles (int k)
          (quiet_rounds queueURL cycleLength 0 k)"
    using assms(1-4) by (rule WaitForQueueMessage_reaches)
  have calls: "receive_calls (snd (WaitForQueueMessage env awsRegion queueURL timeout (s0 # rest)))
           = replicate (Suc k) (receiveInput queueURL cycleLength)"
    using assms(3,5,6)
    by (simp add: reach loop_message_calls receive_calls_quiet_rounds replicate_append_same)
  have "fst (WaitForQueueMessage env awsRegion queueURL timeout (s0 # rest))
          = Returned \<lparr> ReceiptHandle = handle, MessageBody = body, Error = None \<rparr>"
    if "MessageId m = Some mid" "Message.ReceiptHandle m = Some handle" "Body m = Some body"
    for mid handle body
    using assms(3,5,6) that by (simp add: reach loop_message_step)
  then show ?thesis using calls by blast
qed

theorem message_ends_the_wait_witness:
  "NewAuthenticatedSession message_on_second_env ''eu-west-1'' None
     = Inr (Session ''eu-west-1'') \<and>
   timeBudget 100 = (5, 20) \<and> int 1 < 5 \<and>
   list_all (no_message message_on_second_env (SQS (Session ''eu-west-1''))
               (receiveInput ''https://sqs/q'' 20)) [0..<1] \<and>
   ReceiveMessage message_on_second_env (SQS (Session ''eu-west-1'')) 1
       (receiveInput ''https://sqs/q'' 20)
     = Inr \<lparr> Messages = [\<lparr> MessageId = Some ''id-1'', Message.ReceiptHandle = Some ''handle-1'',
                            Body = Some ''hello'' \<rparr>] \<rparr> \<and>
   fst (WaitForQueueMessage message_on_second_env ''eu-west-1'' ''https://sqs/q'' 100 [None])
     = Returned \<lparr> ReceiptHandle = ''handle-1'', MessageBody = ''hello'', Error = None \<rparr> \<and>
   length (receive_calls
             (snd (WaitForQueueMessage message_on_second_env ''eu-west-1'' ''https://sqs/q'' 100
                     [None])))
     = 2"
proof -
  have s: "NewAuthenticatedSession message_on_second_env ''eu-west-1'' None
             = Inr (Session ''eu-west-1'')"
    by (simp add: message_on_second_env_def example_env_def)
  have tb: "timeBudget 100 = (5, 20)" by (simp add: timeBudget_cases)
  have k: "int 1 < 5" by simp
  have q: "\<forall>j<1. no_message message_on_second_env (SQS (Session ''eu-west-1''))
                   (receiveInput ''https://sqs/q'' 20) j"
    by (simp add: no_message_def message_on_second_env_def)
  have r: "ReceiveMessage message_on_second_env (SQS (Session ''eu-west-1'')) 1
             (receiveInput ''https://sqs/q'' 20)
           = Inr \<lparr> Messages = [\<lparr> MessageId = Some ''id-1'',
                                  Message.ReceiptHandle = Some ''handle-1'',
                                  Body = Some ''hello'' \<rparr>] \<rparr>"
    by (simp add: message_on_second_env_def)
  have m: "Messages \<lparr> Messages = [\<lparr> MessageId = Some ''id-1'',
                                         Message.ReceiptHandle = Some ''handle-1'',
                                         Body = Some ''hello'' \<rparr>] \<rparr>
           = \<lparr> MessageId = Some ''id-1'', Message.ReceiptHandle = Some ''handle-1'',
               Body = Some ''hello'' \<rparr> # []"
    by simp
  show ?thesis
    using s tb q r message_ends_the_wait [OF s tb k q r m, where rest = "[]"]
    by (simp add: list_all_iff)
qed


text \<open>
  Claim C5. When the session is obtained and every receive call of the budget succeeds
  without a message, the waiter returns the response whose \<^verbatim>\<open>Error\<close> is the struct
  \<^verbatim>\<open>ReceiveMessageTimeout\<close> holding the queue URL and the \<open>timeout\<close> the caller asked for
  (not the seconds really waited); this value is none of the errors that come from
  outside the package.
\<close>

theorem exhausted_wait_reports_timeout:
  assumes "NewAuthenticatedSession env awsRegion s0 = Inr sess"
    and "timeBudget timeout = (cycles, cycleLength)"
    and "\<forall>j<nat cycles. no_message env (SQS sess) (receiveInput queueURL cycleLength) j"
  shows "fst (WaitForQueueMessage env awsRegion queueURL timeout (s0 # rest))
           = Returned \<lparr> ReceiptHandle = [], MessageBody = [],
                        Error = Some (ReceiveMessageTimeout queueURL timeout) \<rparr> \<and>
         (\<forall>e. ReceiveMessageTimeout queueURL timeout \<noteq> SdkError e) \<and>
         length (receive_calls (snd (WaitForQueueMessage env awsRegion queueURL timeout (s0 # rest))))
           = nat cycles"
  using WaitForQueueMessage_quiet [OF assms, of rest]
  by (simp add: timeoutResponse_def receive_calls_quiet_rounds)

theorem exhausted_wait_reports_timeout_witness:
  "NewAuthenticatedSession example_env ''eu-west-1'' None = Inr (Session ''eu-west-1'') \<and>
   timeBudget 40 = (2, 20) \<and>
   list_all (no_message example_env (SQS (Session ''eu-west-1''))
               (receiveInput ''https://sqs/q'' 20)) [0..<nat 2] \<and>
   fst (WaitForQueueMessage example_env ''eu-west-1'' ''https://sqs/q'' 40 [None])
     = Returned \<lparr> ReceiptHandle = [], MessageBody = [],
                  Error = Some (ReceiveMessageTimeout ''https://sqs/q'' 40) \<rparr>"
proof -
  have s: "NewAuthenticatedSession example_env ''eu-west-1'' None = Inr (Session ''eu-west-1'')"
    by (simp add: example_env_def)
  have tb: "timeBudget 40 = (2, 20)" by (simp add: timeBudget_cases)
  have q: "\<forall>j<nat 2.
      no_message example_env (SQS (Session ''eu-west-1'')) (receiveInput ''https://sqs/q'' 20) j"
    by (simp add: no_message_def example_env_def)
  show ?thesis
    using s tb q exhausted_wait_reports_timeout [OF s tb q, where rest = "[]"]
    by (simp add: list_all_iff)
qed

section \<open>The optional session argument\<close>

text \<open>
  Claim C6 asks that a caller may leave the session out. Every helper declares the
  variadic parameter \<^verbatim>\<open>sessExists ...*session.Session\<close> and then reads \<^verbatim>\<open>sessExists[0]\<close>
  unguarded: called without a session, the waiter, the client constructors, the lookups
  of the current user and the enabling step all panic, whatever the other arguments are, and no
  session is requested.
\<close>

theorem omitted_session_panics:
  "WaitForQueueMessage env awsRegion queueURL timeout [] = (Panic, []) \<and>
   NewSqsClientE env region [] = Panic \<and>
   NewIamClientE env region [] = Panic \<and>
   GetIamCurrentUserArnE env [] w = (Panic, w) \<and>
   GetIamCurrentUserNameE env [] w = (Panic, w) \<and>
   GetIamCurrentUserName env [] w = (Panic, w) \<and>
   fst (EnableMfaDeviceE env iamClient mfaDevice [] w) = Panic"
  by (simp add: WaitForQueueMessage_def NewSqsClientE_def NewIamClientE_def
        GetIamCurrentUserArnE_def GetIamCurrentUserNameE_def GetIamCurrentUserName_def
        EnableMfaDeviceE_def split: option.splits)

section \<open>Properties of the enrollment flow\<close>

lemma otp_codes_append: "otp_codes (xs @ ys) = otp_codes xs @ otp_codes ys"
  by (induction xs rule: otp_codes.induct) simp_all

lemma enable_calls_append: "enable_calls (xs @ ys) = enable_calls xs @ enable_calls ys"
  by (induction xs rule: enable_calls.induct) simp_all

text \<open>
  A run of \<^verbatim>\<open>EnableMfaDeviceE\<close> that returns \<^verbatim>\<open>nil\<close> has done exactly this, in this order:
  the log line, the lookup of the user, the first code, the log line and the sleep of 30
  seconds, the second code, the enable call with both codes, the log line and the sleep of
  10 seconds.
\<close>

lemma EnableMfaDeviceE_success:
  assumes "EnableMfaDeviceE env iamClient mfaDevice sessExists w = (Returned None, w')"
  shows "\<exists>dev a b s1 e1 code1 s2 e2 code2 e3 inp.
           mfaDevice = Some dev \<and>
           trace w' = trace w @
             [Logf_Enabling (aws_StringValue (VirtualMFADevice.SerialNumber dev)),
              Call_GetUser a b,
              Call_GetTimeBasedOneTimePassword s1 e1 (Inr code1),
              Logf_Waiting30,
              Slept e1 30 s2,
              Call_GetTimeBasedOneTimePassword s2 e2 (Inr code2),
              Call_EnableMFADevice e2 e3 inp,
              Log_Propagate,
              Slept e3 10 (now w')] \<and>
           AuthenticationCode1 inp = Some code1 \<and> AuthenticationCode2 inp = Some code2 \<and>
           EnableMFADeviceInput.SerialNumber inp = VirtualMFADevice.SerialNumber dev \<and>
           e1 + 30 \<le> s2 \<and> s2 \<le> e2 \<and> e2 \<le> e3 \<and> e3 + 10 \<le> now w'"
  using assms
  by (auto simp: EnableMfaDeviceE_def GetIamCurrentUserArnE_def NewIamClientE_def
        call_GetUser_def call_GetTimeBasedOneTimePassword_def call_EnableMFADevice_def
        time_Sleep_def log_event_def aws_String_def Let_def
      split: option.splits list.splits sum.splits prod.splits outcome.splits)


text \<open>A run of the enabling step against the example environment, from the clock 100.\<close>

lemma example_enable_run:
  "EnableMfaDeviceE example_env (IAM (Session ''admin'')) (Some example_device) [None]
       \<lparr> now = 100, trace = [] \<rparr>
     = (Returned None,
        \<lparr> now = 142,
          trace = [Logf_Enabling ''arn:aws:iam::123456789012:mfa/dev'',
                   Call_GetUser 100 101,
                   Call_GetTimeBasedOneTimePassword 101 101 (Inr ''287082''),
                   Logf_Waiting30,
                   Slept 101 30 131,
                   Call_GetTimeBasedOneTimePassword 131 131 (Inr ''492039''),
                   Call_EnableMFADevice 131 132
                     \<lparr> AuthenticationCode1 = Some ''287082'',
                       AuthenticationCode2 = Some ''492039'',
                       SerialNumber = Some ''arn:aws:iam::123456789012:mfa/dev'',
                       UserName = Some ''arn:aws:iam::123456789012:user/ci'' \<rparr>,
                   Log_Propagate,
                   Slept 132 10 142] \<rparr>)"
    by (simp add: EnableMfaDeviceE_def GetIamCurrentUserArnE_def NewIamClientE_def
          call_GetUser_def call_GetTimeBasedOneTimePassword_def call_EnableMFADevice_def
          time_Sleep_def log_event_def aws_String_def aws_StringValue_def Let_def
          example_env_def example_device_def)

text \<open>
  Claim C7. In every run of \<^verbatim>\<open>EnableMfaDeviceE\<close> that returns \<^verbatim>\<open>nil\<close>, exactly two one-time
  codes are generated and exactly one enable call is made, with these two codes in this
  order; the call that generates the second code starts at least 30 seconds of the clock
  after the call that generated the first one has returned, and so does the enable call.
  An entry \<open>(s, e, x)\<close> is a call that started at \<open>s\<close> and returned at \<open>e\<close>.
\<close>

theorem settle_delay_separates_codes:
  assumes "EnableMfaDeviceE env iamClient mfaDevice sessExists w = (Returned None, w')"
  shows "\<exists>s1 e1 code1 s2 e2 code2 s3 e3 inp.
           otp_codes (trace w') = otp_codes (trace w) @ [(s1, e1, code1), (s2, e2, code2)] \<and>
           enable_calls (trace w') = enable_calls (trace w) @ [(s3, e3, inp)] \<and>
           AuthenticationCode1 inp = Some code1 \<and> AuthenticationCode2 inp = Some code2 \<and>
           e1 + 30 \<le> s2 \<and> e1 + 30 \<le> s3"
proof -
  from EnableMfaDeviceE_success [OF assms]
  obtain dev :: VirtualMFADevice and a b s1 e1 code1 s2 e2 code2 e3 inp where
    tr: "trace w' = trace w @
             [Logf_Enabling (aws_StringValue (VirtualMFADevice.SerialNumber dev)),
              Call_GetUser a b,
              Call_GetTimeBasedOneTimePassword s1 e1 (Inr code1),
              Logf_Waiting30,
              Slept e1 30 s2,
              Call_GetTimeBasedOneTimePassword s2 e2 (Inr code2),
              Call_EnableMFADevice e2 e3 inp,
              Log_Propagate,
              Slept e3 10 (now w')]"
    and codes: "AuthenticationCode1 inp = Some code1" "AuthenticationCode2 inp = Some code2"
    and times: "e1 + 30 \<le> s2" "s2 \<le> e2"
    by (elim exE conjE) blast
  have "otp_codes (trace w') = otp_codes (trace w) @ [(s1, e1, code1), (s2, e2, code2)]"
    by (simp add: tr otp_codes_append)
  moreover have "enable_calls (trace w') = enable_calls (trace w) @ [(e2, e3, inp)]"
    by (simp add: tr enable_calls_append)
  moreover have "e1 + 30 \<le> e2" using times by simp
  ultimately show ?thesis using codes times by blast
qed

theorem settle_delay_separates_codes_witness:
  "EnableMfaDeviceE example_env (IAM (Session ''admin'')) (Some example_device) [None]
       \<lparr> now = 100, trace = [] \<rparr>
     = (Returned None,
        \<lparr> now = 142,
          trace = [Logf_Enabling ''arn:aws:iam::123456789012:mfa/dev'',
                   Call_GetUser 100 101,
                   Call_GetTimeBasedOneTimePassword 101 101 (Inr ''287082''),
                   Logf_Waiting30,
                   Slept 101 30 131,
                   Call_GetTimeBasedOneTimePassword 131 131 (Inr ''492039''),
                   Call_EnableMFADevice 131 132
                     \<lparr> AuthenticationCode1 = Some ''287082'',
                       AuthenticationCode2 = Some ''492039'',
                       SerialNumber = Some ''arn:aws:iam::123456789012:mfa/dev'',
                       UserName = Some ''arn:aws:iam::123456789012:user/ci'' \<rparr>,
                   Log_Propagate,
                   Slept 132 10 142] \<rparr>) \<and>
   (\<exists>s1 e1 code1 s2 e2 code2 s3 e3 inp.
      otp_codes (trace (snd (EnableMfaDeviceE example_env (IAM (Session ''admin''))
                               (Some example_device) [None] \<lparr> now = 100, trace = [] \<rparr>)))
        = [(s1, e1, code1), (s2, e2, code2)] \<and>
      enable_calls (trace (snd (EnableMfaDeviceE example_env (IAM (Session ''admin''))
                               (Some example_device) [None] \<lparr> now = 100, trace = [] \<rparr>)))
        = [(s3, e3, inp)] \<and>
      AuthenticationCode1 inp = Some code1 \<and> AuthenticationCode2 inp = Some code2 \<and>
      e1 + 30 \<le> s2 \<and> e1 + 30 \<le> s3)"
proof -
  note run = example_enable_run
  show ?thesis
    using settle_delay_separates_codes [OF run] run by simp
qed


text \<open>
  Claim C8. In every run of \<^verbatim>\<open>EnableMfaDeviceE\<close> that returns \<^verbatim>\<open>nil\<close>, the clock at the
  return, \<open>now w'\<close>, is at least 10 seconds after the clock at which the one enable call
  returned.
\<close>

theorem propagation_delay_before_success:
  assumes "EnableMfaDeviceE env iamClient mfaDevice sessExists w = (Returned None, w')"
  shows "\<exists>s3 e3 inp.
           enable_calls (trace w') = enable_calls (trace w) @ [(s3, e3, inp)] \<and>
           e3 + 10 \<le> now w'"
proof -
  from EnableMfaDeviceE_success [OF assms]
  obtain dev :: VirtualMFADevice and a b s1 e1 code1 s2 e2 code2 e3 inp where
    tr: "trace w' = trace w @
             [Logf_Enabling (aws_StringValue (VirtualMFADevice.SerialNumber dev)),
              Call_GetUser a b,
              Call_GetTimeBasedOneTimePassword s1 e1 (Inr code1),
              Logf_Waiting30,
              Slept e1 30 s2,
              Call_GetTimeBasedOneTimePassword s2 e2 (Inr code2),
              Call_EnableMFADevice e2 e3 inp,
              Log_Propagate,
              Slept e3 10 (now w')]"
    and wait: "e3 + 10 \<le> now w'"
    by (elim exE conjE) blast
  have "enable_calls (trace w') = enable_calls (trace w) @ [(e2, e3, inp)]"
    by (simp add: tr enable_calls_append)
  then show ?thesis using wait by blast
qed

theorem propagation_delay_before_success_witness:
  "fst (EnableMfaDeviceE example_env (IAM (Session ''admin'')) (Some example_device) [None]
          \<lparr> now = 100, trace = [] \<rparr>) = Returned None \<and>
   now (snd (EnableMfaDeviceE example_env (IAM (Session ''admin'')) (Some example_device) [None]
          \<lparr> now = 100, trace = [] \<rparr>)) = 142 \<and>
   (\<exists>s3 e3 inp.
      enable_calls (trace (snd (EnableMfaDeviceE example_env (IAM (Session ''admin''))
                               (Some example_device) [None] \<lparr> now = 100, trace = [] \<rparr>)))
        = [(s3, e3, inp)] \<and>
      e3 + 10 \<le> now (snd (EnableMfaDeviceE example_env (IAM (Session ''admin''))
                               (Some example_device) [None] \<lparr> now = 100, trace = [] \<rparr>)))"
  using propagation_delay_before_success [OF example_enable_run] example_enable_run by simp

text \<open>
  Claim C9. When the call that creates the device fails with \<open>err\<close>, \<^verbatim>\<open>CreateMfaDeviceE\<close>
  returns \<^verbatim>\<open>(nil, err)\<close> with \<open>err\<close> itself, whatever the session argument is. The world it
  leaves holds the log line and the creation call and nothing else: no lookup of the
  user, no one-time code, no sleep; the clock has moved by the duration of the creation
  call only.
\<close>

theorem creation_error_returned_at_once:
  assumes "CreateVirtualMFADevice env iamClient (now w)
             \<lparr> VirtualMFADeviceName = aws_String deviceName \<rparr> = (Inl err, d)"
  shows "CreateMfaDeviceE env iamClient deviceName sessExists w =
           (Returned (None, Some err),
            w\<lparr> now := now w + d,
               trace := trace w @
                 [Logf_Creating deviceName,
                  Call_CreateVirtualMFADevice (now w) (now w + d)
                    \<lparr> VirtualMFADeviceName = aws_String deviceName \<rparr>] \<rparr>)"
  using assms
  by (simp add: CreateMfaDeviceE_def call_CreateVirtualMFADevice_def log_event_def)

theorem creation_error_returned_at_once_witness:
  "CreateVirtualMFADevice create_fails_env (IAM (Session ''admin'')) 100
       \<lparr> VirtualMFADeviceName = aws_String ''dev'' \<rparr>
     = (Inl (SdkError ''LimitExceeded: virtual MFA devices''), 1) \<and>
   CreateMfaDeviceE create_fails_env (IAM (Session ''admin'')) ''dev'' [None]
       \<lparr> now = 100, trace = [] \<rparr>
     = (Returned (None, Some (SdkError ''LimitExceeded: virtual MFA devices'')),
        \<lparr> now = 101,
          trace = [Logf_Creating ''dev'',
                   Call_CreateVirtualMFADevice 100 101 \<lparr> VirtualMFADeviceName = Some ''dev'' \<rparr>] \<rparr>)"
proof -
  have c: "CreateVirtualMFADevice create_fails_env (IAM (Session ''admin''))
             (now \<lparr> now = 100, trace = [] \<rparr>) \<lparr> VirtualMFADeviceName = aws_String ''dev'' \<rparr>
           = (Inl (SdkError ''LimitExceeded: virtual MFA devices''), 1)"
    by (simp add: create_fails_env_def)
  show ?thesis
    using c creation_error_returned_at_once [OF c, of "[None]"]
    by (simp add: aws_String_def)
qed

text \<open>
  The steps of \<^verbatim>\<open>EnableMfaDeviceE\<close> after the device exists: a failure of the ARN lookup, of
  either code generation or of the enable call is what the function returns.
\<close>

lemma arn_failure_fails_enabling:
  assumes "GetIamCurrentUserArnE env [s0]
             (log_event (Logf_Enabling (aws_StringValue (VirtualMFADevice.SerialNumber dev))) w)
           = (Returned (Inl err), w1)"
  shows "EnableMfaDeviceE env iamClient (Some dev) (s0 # rest) w = (Returned (Some err), w1)"
  using assms by (simp add: EnableMfaDeviceE_def)

lemma first_code_failure_fails_enabling:
  assumes "GetIamCurrentUserArnE env [s0]
             (log_event (Logf_Enabling (aws_StringValue (VirtualMFADevice.SerialNumber dev))) w)
           = (Returned (Inr iamUserName), w1)"
    and "call_GetTimeBasedOneTimePassword env dev w1 = (Inl err, w2)"
  shows "EnableMfaDeviceE env iamClient (Some dev) (s0 # rest) w = (Returned (Some err), w2)"
  using assms by (simp add: EnableMfaDeviceE_def)

lemma second_code_failure_fails_enabling:
  assumes "GetIamCurrentUserArnE env [s0]
             (log_event (Logf_Enabling (aws_StringValue (VirtualMFADevice.SerialNumber dev))) w)
           = (Returned (Inr iamUserName), w1)"
    and "call_GetTimeBasedOneTimePassword env dev w1 = (Inr authCode1, w2)"
    and "call_GetTimeBasedOneTimePassword env dev
           (time_Sleep env 30 (log_event Logf_Waiting30 w2)) = (Inl err, w4)"
  shows "EnableMfaDeviceE env iamClient (Some dev) (s0 # rest) w = (Returned (Some err), w4)"
  using assms by (simp add: EnableMfaDeviceE_def)

lemma enable_call_failure_fails_enabling:
  assumes "GetIamCurrentUserArnE env [s0]
             (log_event (Logf_Enabling (aws_StringValue (VirtualMFADevice.SerialNumber dev))) w)
           = (Returned (Inr iamUserName), w1)"
    and "call_GetTimeBasedOneTimePassword env dev w1 = (Inr authCode1, w2)"
    and "call_GetTimeBasedOneTimePassword env dev
           (time_Sleep env 30 (log_event Logf_Waiting30 w2)) = (Inr authCode2, w4)"
    and "call_EnableMFADevice env iamClient
           \<lparr> AuthenticationCode1 = aws_String authCode1,
             AuthenticationCode2 = aws_String authCode2,
             SerialNumber = VirtualMFADevice.SerialNumber dev,
             UserName = aws_String iamUserName \<rparr> w4 = (Some err, w5)"
  shows "EnableMfaDeviceE env iamClient (Some dev) (s0 # rest) w = (Returned (Some err), w5)"
  using assms by (simp add: EnableMfaDeviceE_def)

text \<open>
  Claim C10. When the creation call has succeeded, leaving the world \<open>w1\<close>, and the
  enabling of the new device returns the error \<open>err\<close> (from the ARN lookup, a code
  generation or the enable call), \<^verbatim>\<open>CreateMfaDeviceE\<close> returns \<^verbatim>\<open>(nil, err)\<close>: the device
  descriptor of the creation output, with its serial number, is not part of the result.
\<close>

theorem later_failure_returns_no_device:
  assumes "call_CreateVirtualMFADevice env iamClient
             \<lparr> VirtualMFADeviceName = aws_String deviceName \<rparr>
             (log_event (Logf_Creating deviceName) w) = (Inr output, w1)"
    and "EnableMfaDeviceE env iamClient (VirtualMFADevice output) [s0] w1
           = (Returned (Some err), w2)"
  shows "CreateMfaDeviceE env iamClient deviceName (s0 # rest) w
           = (Returned (None, Some err), w2)"
  using assms by (simp add: CreateMfaDeviceE_def)


theorem later_failure_returns_no_device_witness:
  "call_CreateVirtualMFADevice enable_fails_env (IAM (Session ''admin''))
       \<lparr> VirtualMFADeviceName = aws_String ''dev'' \<rparr>
       (log_event (Logf_Creating ''dev'') \<lparr> now = 100, trace = [] \<rparr>)
     = (Inr \<lparr> VirtualMFADevice = Some example_device \<rparr>,
        \<lparr> now = 102,
          trace = [Logf_Creating ''dev'',
                   Call_CreateVirtualMFADevice 100 102
                     \<lparr> VirtualMFADeviceName = Some ''dev'' \<rparr>] \<rparr>) \<and>
   CreateMfaDeviceE enable_fails_env (IAM (Session ''admin'')) ''dev'' [None]
       \<lparr> now = 100, trace = [] \<rparr>
     = (Returned (None, Some (SdkError ''InvalidAuthenticationCode'')),
        \<lparr> now = 134,
          trace = [Logf_Creating ''dev'',
                   Call_CreateVirtualMFADevice 100 102
                     \<lparr> VirtualMFADeviceName = Some ''dev'' \<rparr>,
                   Logf_Enabling ''arn:aws:iam::123456789012:mfa/dev'',
                   Call_GetUser 102 103,
                   Call_GetTimeBasedOneTimePassword 103 103 (Inr ''287082''),
                   Logf_Waiting30,
                   Slept 103 30 133,
                   Call_GetTimeBasedOneTimePassword 133 133 (Inr ''492039''),
                   Call_EnableMFADevice 133 134
                     \<lparr> AuthenticationCode1 = Some ''287082'',
                       AuthenticationCode2 = Some ''492039'',
                       SerialNumber = Some ''arn:aws:iam::123456789012:mfa/dev'',
                       UserName = Some ''arn:aws:iam::123456789012:user/ci'' \<rparr>] \<rparr>)"
proof -
  have c: "call_CreateVirtualMFADevice enable_fails_env (IAM (Session ''admin''))
       \<lparr> VirtualMFADeviceName = aws_String ''dev'' \<rparr>
       (log_event (Logf_Creating ''dev'') \<lparr> now = 100, trace = [] \<rparr>)
     = (Inr \<lparr> VirtualMFADevice = Some example_device \<rparr>,
        \<lparr> now = 102,
          trace = [Logf_Creating ''dev'',
                   Call_CreateVirtualMFADevice 100 102
                     \<lparr> VirtualMFADeviceName = Some ''dev'' \<rparr>] \<rparr>)"
    by (simp add: call_CreateVirtualMFADevice_def log_event_def aws_String_def
          enable_fails_env_def example_env_def example_device_def)
  have e: "EnableMfaDeviceE enable_fails_env (IAM (Session ''admin''))
       (VirtualMFADevice \<lparr> VirtualMFADevice = Some example_device \<rparr>) [None]
        \<lparr> now = 102,
          trace = [Logf_Creating ''dev'',
                   Call_CreateVirtualMFADevice 100 102
                     \<lparr> VirtualMFADeviceName = Some ''dev'' \<rparr>] \<rparr>
     = (Returned (Some (SdkError ''InvalidAuthenticationCode'')),
        \<lparr> now = 134,
          trace = [Logf_Creating ''dev'',
                   Call_CreateVirtualMFADevice 100 102
                     \<lparr> VirtualMFADeviceName = Some ''dev'' \<rparr>,
                   Logf_Enabling ''arn:aws:iam::123456789012:mfa/dev'',
                   Call_GetUser 102 103,
                   Call_GetTimeBasedOneTimePassword 103 103 (Inr ''287082''),
                   Logf_Waiting30,
                   Slept 103 30 133,
                   Call_GetTimeBasedOneTimePassword 133 133 (Inr ''492039''),
                   Call_EnableMFADevice 133 134
                     \<lparr> AuthenticationCode1 = Some ''287082'',
                       AuthenticationCode2 = Some ''492039'',
                       SerialNumber = Some ''arn:aws:iam::123456789012:mfa/dev'',
                       UserName = Some ''arn:aws:iam::123456789012:user/ci'' \<rparr>] \<rparr>)"
    by (simp add: EnableMfaDeviceE_def GetIamCurrentUserArnE_def NewIamClientE_def
          call_GetUser_def call_GetTimeBasedOneTimePassword_def call_EnableMFADevice_def
          time_Sleep_def log_event_def aws_String_def aws_StringValue_def Let_def
          enable_fails_env_def example_env_def example_device_def)
  show ?thesis
    using c later_failure_returns_no_device [OF c e, of "[]"] by simp
qed

end
